theory Spec2Isabelle
  imports Complex_Main "HOL-Library.Multiset"
begin

section \<open>Values, errors and results\<close>

text \<open>
  Python values that cross the keyword-argument boundary of the evaluation harness are
  dynamically typed; they are kept as a small universe of values.
\<close>

datatype pyval =
    PNone
  | PBool bool
  | PInt int
  | PStr string
  | PDatetime string
  | PList "pyval list"

text \<open>
  Exceptions are values. \<open>ValueError\<close> carries its message; \<open>ShapeError\<close> is the
  \<open>ValueError\<close> of \<open>eval\<close> whose message is formatted from the two lengths;
  \<open>Raised\<close> stands for whatever an external collaborator raises.
\<close>

datatype error =
    ValueError string
  | ShapeError nat nat
  | TypeError
  | ImportError
  | IndexError
  | Raised string

definition length_mismatch :: error where
  "length_mismatch = ValueError ''The number of predictions and labels must be the same.''"

text \<open>
  A \<open>MetricsResult\<close> is a dictionary from metric names to values: \<open>None\<close>, a float or
  a list of floats. Floats are modelled by the real numbers they denote, with \<open>MNaN\<close>
  for the one not-a-number that the metrics can produce, the mean of no numbers.
\<close>

datatype mvalue = MNone | MNum real | MNaN | MScores "real list"

type_synonym MetricsResult = "(string \<times> mvalue) list"

section \<open>Token-overlap F1 for one sample\<close>

text \<open>
  \<open>collections.Counter(label_toks) & collections.Counter(pred_toks)\<close> keeps, for
  every distinct token of the first list, the minimum of its two multiplicities (when
  positive); \<open>sum(common.values())\<close> adds these minima up.
\<close>

definition num_same :: "'a list \<Rightarrow> 'a list \<Rightarrow> nat" where
  "num_same label_toks pred_toks =
     sum_list (map (\<lambda>t. min (count_list label_toks t) (count_list pred_toks t))
                   (remdups label_toks))"

definition compute_f1_single :: "'a list \<Rightarrow> 'a list \<Rightarrow> real" where
  "compute_f1_single label_toks pred_toks =
     (if length label_toks = 0 \<or> length pred_toks = 0 then
        (if label_toks = pred_toks then 1 else 0)
      else if num_same label_toks pred_toks = 0 then 0
      else
        (let precision = 1 * real (num_same label_toks pred_toks) / real (length pred_toks);
             recall = 1 * real (num_same label_toks pred_toks) / real (length label_toks)
         in (2 * precision * recall) / (precision + recall)))"

text \<open>
  The arithmetic mean, and \<open>np.mean\<close> of a list of numbers, which is the arithmetic mean
  of a list that is not empty and not a number for the empty list.
\<close>

definition mean :: "real list \<Rightarrow> real" where
  "mean xs = sum_list xs / real (length xs)"

definition np_mean :: "real list \<Rightarrow> mvalue" where
  "np_mean xs = (if xs = [] then MNaN else MNum (mean xs))"

section \<open>Whitespace tokenisation\<close>

text \<open>
  \<open>str.split()\<close> without arguments splits at runs of whitespace and drops empty
  pieces. Characters are the code points below 256; the whitespace ones among them are
  9 to 13, 28 to 32, 133 and 160.
\<close>

definition is_space :: "char \<Rightarrow> bool" where
  "is_space c = (let n = (of_char c :: nat) in
     (9 \<le> n \<and> n \<le> 13) \<or> (28 \<le> n \<and> n \<le> 32) \<or> n = 133 \<or> n = 160)"

fun split_aux :: "string \<Rightarrow> string \<Rightarrow> string list" where
  "split_aux cur [] = (if cur = [] then [] else [cur])"
| "split_aux cur (c # cs) =
     (if is_space c then (if cur = [] then split_aux [] cs else cur # split_aux [] cs)
      else split_aux (cur @ [c]) cs)"

definition split :: "string \<Rightarrow> string list" where
  "split s = split_aux [] s"

section \<open>The evaluation result and its collaborators\<close>

text \<open>
  A runnable is a pipeline or a component: the name of its type and its \<open>run\<close>
  operation, which may raise and may change the world outside (the state \<open>'s\<close>).
\<close>

record ('i, 'o, 's) runnable =
  type_name :: string
  run :: "'i \<Rightarrow> 's \<Rightarrow> (error + 'o) \<times> 's"

record ('i, 'o, 's) EvaluationResult =
  runnable :: "('i, 'o, 's) runnable"
  inputs :: "'i list"
  outputs :: "'o list"
  expected_outputs :: "'o list"
  runnable_type :: string

definition EvaluationResult_init ::
  "('i, 'o, 's) runnable \<Rightarrow> 'i list \<Rightarrow> 'o list \<Rightarrow> 'o list \<Rightarrow> ('i, 'o, 's) EvaluationResult" where
  "EvaluationResult_init r ins outs exps =
     \<lparr> runnable = r, inputs = ins, outputs = outs, expected_outputs = exps,
       runnable_type = (if type_name r = ''Pipeline'' then ''pipeline'' else ''component'') \<rparr>"

text \<open>
  What \<open>eval.py\<close> imports and calls but does not define is a parameter of the model:
  \<^item> \<open>metrics_import_ok\<close>: whether \<open>metrics_import.check()\<close> passes;
  \<^item> \<open>get_answers_from_output\<close> (outputs, output key, runnable type), which may raise;
  \<^item> \<open>preprocess_string\<close>: what \<open>preprocess_text\<close> does to one string under its four
    options;
  \<^item> \<open>auto_config\<close>: the \<open>architectures\<close> of the configuration loaded for a model
    and token;
  \<^item> \<open>resolve_device\<close>: the torch string of the resolved device;
  \<^item> \<open>cross_encoder_predict\<close> (model, device, token, sentence pairs, batch size);
  \<^item> \<open>encode\<close> (model, device, token, sentences, batch size), one embedding per row;
  \<^item> \<open>cos_sim\<close> of two embeddings and \<open>expit\<close> of one score.
\<close>

record 'o env =
  metrics_import_ok :: bool
  get_answers_from_output :: "'o list \<Rightarrow> pyval \<Rightarrow> string \<Rightarrow> error + string list"
  preprocess_string :: "pyval \<Rightarrow> pyval \<Rightarrow> pyval \<Rightarrow> pyval \<Rightarrow> string \<Rightarrow> string"
  auto_config :: "pyval \<Rightarrow> pyval \<Rightarrow> error + string list option"
  resolve_device :: "pyval \<Rightarrow> error + string"
  cross_encoder_predict ::
    "pyval \<Rightarrow> string \<Rightarrow> pyval \<Rightarrow> (string \<times> string) list \<Rightarrow> pyval \<Rightarrow> error + real list"
  encode :: "pyval \<Rightarrow> string \<Rightarrow> pyval \<Rightarrow> string list \<Rightarrow> pyval \<Rightarrow> error + real list list"
  cos_sim :: "real list \<Rightarrow> real list \<Rightarrow> real"
  expit :: "real \<Rightarrow> real"

text \<open>
  Modelled from the spec: \<open>preprocess_text\<close> of \<open>haystack.evaluation.eval_utils\<close>, which
  is not among the sources. The spec gives it as a pure function that produces a
  same-length sequence of transformed strings, each string processed on its own.
\<close>

definition preprocess_text ::
  "'o env \<Rightarrow> string list \<Rightarrow> pyval \<Rightarrow> pyval \<Rightarrow> pyval \<Rightarrow> pyval \<Rightarrow> string list" where
  "preprocess_text E texts regexes_to_ignore ignore_case ignore_punctuation ignore_numbers =
     map (preprocess_string E regexes_to_ignore ignore_case ignore_punctuation ignore_numbers) texts"

section \<open>The metrics\<close>

definition calculate_recall :: MetricsResult where
  "calculate_recall = [(''recall'', MNone)]"

definition calculate_map :: MetricsResult where
  "calculate_map = [(''mean_average_precision'', MNone)]"

definition calculate_mrr :: MetricsResult where
  "calculate_mrr = [(''mean_reciprocal_rank'', MNone)]"

definition calculate_f1 ::
  "'o env \<Rightarrow> ('i, 'o, 's) EvaluationResult \<Rightarrow> pyval \<Rightarrow> pyval \<Rightarrow> pyval \<Rightarrow> pyval \<Rightarrow> pyval
     \<Rightarrow> error + MetricsResult" where
  "calculate_f1 E self output_key regexes_to_ignore ignore_case ignore_punctuation ignore_numbers =
     (case get_answers_from_output E (outputs self) output_key (runnable_type self) of
        Inl e \<Rightarrow> Inl e
      | Inr predictions \<Rightarrow>
     (case get_answers_from_output E (expected_outputs self) output_key (runnable_type self) of
        Inl e \<Rightarrow> Inl e
      | Inr labels \<Rightarrow>
        if length predictions \<noteq> length labels then Inl length_mismatch
        else if length predictions = 0 \<and> length labels = 0 then Inr [(''f1'', MNum 0)]
        else
          (let predictions' = preprocess_text E predictions regexes_to_ignore ignore_case
                                ignore_punctuation ignore_numbers;
               labels' = preprocess_text E labels regexes_to_ignore ignore_case
                                ignore_punctuation ignore_numbers;
               tokenized_predictions = map split predictions';
               tokenized_labels = map split labels';
               f1_scores = map (\<lambda>(label_toks, pred_toks). compute_f1_single label_toks pred_toks)
                               (zip tokenized_labels tokenized_predictions)
           in Inr [(''f1'', np_mean f1_scores)])))"

text \<open>
  \<open>np.array(predictions) == np.array(labels)\<close> compares the two string arrays position
  by position; \<open>np.mean\<close> of the boolean array counts \<open>True\<close> as 1 and \<open>False\<close> as 0.
  A numpy string array stores its elements at one fixed width, padded with NUL characters,
  so the comparison cannot tell the NUL characters at the end of a string from padding:
  two elements are equal when the strings are equal once their trailing NUL characters
  are removed.
\<close>

definition rstrip_nul :: "string \<Rightarrow> string" where
  "rstrip_nul s = rev (dropWhile (\<lambda>c. c = CHR 0x00) (rev s))"

definition np_str_equal :: "string \<Rightarrow> string \<Rightarrow> bool" where
  "np_str_equal p l = (rstrip_nul p = rstrip_nul l)"

definition calculate_em ::
  "'o env \<Rightarrow> ('i, 'o, 's) EvaluationResult \<Rightarrow> pyval \<Rightarrow> pyval \<Rightarrow> pyval \<Rightarrow> pyval \<Rightarrow> pyval
     \<Rightarrow> error + MetricsResult" where
  "calculate_em E self output_key regexes_to_ignore ignore_case ignore_punctuation ignore_numbers =
     (case get_answers_from_output E (outputs self) output_key (runnable_type self) of
        Inl e \<Rightarrow> Inl e
      | Inr predictions \<Rightarrow>
     (case get_answers_from_output E (expected_outputs self) output_key (runnable_type self) of
        Inl e \<Rightarrow> Inl e
      | Inr labels \<Rightarrow>
        if length predictions \<noteq> length labels then Inl length_mismatch
        else if length predictions = 0 \<and> length labels = 0 then Inr [(''exact_match'', MNum 0)]
        else
          (let predictions' = preprocess_text E predictions regexes_to_ignore ignore_case
                                ignore_punctuation ignore_numbers;
               labels' = preprocess_text E labels regexes_to_ignore ignore_case
                                ignore_punctuation ignore_numbers;
               score_list = map (\<lambda>(p, l). if np_str_equal p l then (1::real) else 0)
                                (zip predictions' labels');
               exact_match_score = np_mean score_list
           in Inr [(''exact_match'', exact_match_score)])))"

text \<open>
  \<open>arch.endswith("ForSequenceClassification")\<close>, and the test
  \<open>if config.architectures:\<close> that \<open>None\<close> and the empty list both fail.
\<close>

definition endswith :: "string \<Rightarrow> string \<Rightarrow> bool" where
  "endswith s suffix =
     (length suffix \<le> length s \<and> drop (length s - length suffix) s = suffix)"

definition cross_encoder_used :: "string list option \<Rightarrow> bool" where
  "cross_encoder_used architectures =
     (case architectures of
        None \<Rightarrow> False
      | Some archs \<Rightarrow>
          if archs = [] then False
          else list_ex (\<lambda>arch. endswith arch ''ForSequenceClassification'') archs)"

text \<open>
  \<open>[scores[i][i].item() for i in range(n)]\<close>: the diagonal of the similarity matrix,
  an \<open>IndexError\<close> where the matrix has no such entry.
\<close>

fun diagonal :: "real list list \<Rightarrow> nat list \<Rightarrow> error + real list" where
  "diagonal scores [] = Inr []"
| "diagonal scores (i # is) =
     (if i < length scores \<and> i < length (scores ! i) then
        (case diagonal scores is of
           Inl e \<Rightarrow> Inl e
         | Inr rest \<Rightarrow> Inr (scores ! i ! i # rest))
      else Inl IndexError)"

definition calculate_sas ::
  "'o env \<Rightarrow> ('i, 'o, 's) EvaluationResult \<Rightarrow> pyval \<Rightarrow> pyval \<Rightarrow> pyval \<Rightarrow> pyval \<Rightarrow> pyval
     \<Rightarrow> pyval \<Rightarrow> pyval \<Rightarrow> pyval \<Rightarrow> pyval \<Rightarrow> error + MetricsResult" where
  "calculate_sas E self output_key regexes_to_ignore ignore_case ignore_punctuation ignore_numbers
       model batch_size device token =
     (if \<not> metrics_import_ok E then Inl ImportError
      else
     (case get_answers_from_output E (outputs self) output_key (runnable_type self) of
        Inl e \<Rightarrow> Inl e
      | Inr predictions \<Rightarrow>
     (case get_answers_from_output E (expected_outputs self) output_key (runnable_type self) of
        Inl e \<Rightarrow> Inl e
      | Inr labels \<Rightarrow>
        if length predictions \<noteq> length labels then Inl length_mismatch
        else if length predictions = 0 \<and> length labels = 0 then
          Inr [(''sas'', MNum 0), (''scores'', MScores [0])]
        else
          (let predictions' = preprocess_text E predictions regexes_to_ignore ignore_case
                                ignore_punctuation ignore_numbers;
               labels' = preprocess_text E labels regexes_to_ignore ignore_case
                                ignore_punctuation ignore_numbers
           in
           (case auto_config E model token of
              Inl e \<Rightarrow> Inl e
            | Inr architectures \<Rightarrow>
           (case resolve_device E device of
              Inl e \<Rightarrow> Inl e
            | Inr torch_device \<Rightarrow>
              if cross_encoder_used architectures then
                (let sentence_pairs = zip predictions' labels' in
                 (case cross_encoder_predict E model torch_device token sentence_pairs batch_size of
                    Inl e \<Rightarrow> Inl e
                  | Inr raw_scores \<Rightarrow>
                      (let similarity_scores =
                             (if list_ex (\<lambda>s. s > 1) raw_scores then map (expit E) raw_scores
                              else raw_scores)
                       in Inr [(''sas'', np_mean similarity_scores),
                               (''scores'', MScores similarity_scores)])))
              else
                (case encode E model torch_device token predictions' batch_size of
                   Inl e \<Rightarrow> Inl e
                 | Inr pred_embeddings \<Rightarrow>
                (case encode E model torch_device token labels' batch_size of
                   Inl e \<Rightarrow> Inl e
                 | Inr label_embeddings \<Rightarrow>
                   (let scores = map (\<lambda>a. map (cos_sim E a) label_embeddings) pred_embeddings in
                    (case diagonal scores [0 ..< length predictions'] of
                       Inl e \<Rightarrow> Inl e
                     | Inr similarity_scores \<Rightarrow>
                         Inr [(''sas'', np_mean similarity_scores),
                              (''scores'', MScores similarity_scores)]))))))))))"

section \<open>Dispatch\<close>

datatype Metric = RECALL | MRR | MAP | F1 | EM | SAS

text \<open>
  Keyword arguments are a dictionary from names to values. Binding them to a method
  fails with a \<open>TypeError\<close> when a name is not a parameter of the method or a parameter
  without default is missing; otherwise a parameter takes the value given or its default.
\<close>

type_synonym kwargs = "(string \<times> pyval) list"

definition bind_error :: "string list \<Rightarrow> string list \<Rightarrow> kwargs \<Rightarrow> bool" where
  "bind_error required optional kw =
     (list_ex (\<lambda>k. k \<notin> set (required @ optional)) (map fst kw) \<or>
      list_ex (\<lambda>r. r \<notin> set (map fst kw)) required)"

definition arg :: "kwargs \<Rightarrow> string \<Rightarrow> pyval \<Rightarrow> pyval" where
  "arg kw name dflt = (case map_of kw name of Some v \<Rightarrow> v | None \<Rightarrow> dflt)"

definition text_options :: "string list" where
  "text_options = [''regexes_to_ignore'', ''ignore_case'', ''ignore_punctuation'', ''ignore_numbers'']"

datatype ('i, 'o, 's) metric_arg =
    Builtin Metric
  | Custom "('i, 'o, 's) EvaluationResult \<Rightarrow> kwargs \<Rightarrow> error + MetricsResult"

fun supported_metrics ::
  "'o env \<Rightarrow> ('i, 'o, 's) EvaluationResult \<Rightarrow> Metric \<Rightarrow> kwargs \<Rightarrow> error + MetricsResult" where
  "supported_metrics E self RECALL kw =
     (if bind_error [] [] kw then Inl TypeError else Inr calculate_recall)"
| "supported_metrics E self MRR kw =
     (if bind_error [] [] kw then Inl TypeError else Inr calculate_mrr)"
| "supported_metrics E self MAP kw =
     (if bind_error [] [] kw then Inl TypeError else Inr calculate_map)"
| "supported_metrics E self F1 kw =
     (if bind_error [''output_key''] text_options kw then Inl TypeError
      else calculate_f1 E self (arg kw ''output_key'' PNone) (arg kw ''regexes_to_ignore'' PNone)
             (arg kw ''ignore_case'' (PBool False)) (arg kw ''ignore_punctuation'' (PBool False))
             (arg kw ''ignore_numbers'' (PBool False)))"
| "supported_metrics E self EM kw =
     (if bind_error [''output_key''] text_options kw then Inl TypeError
      else calculate_em E self (arg kw ''output_key'' PNone) (arg kw ''regexes_to_ignore'' PNone)
             (arg kw ''ignore_case'' (PBool False)) (arg kw ''ignore_punctuation'' (PBool False))
             (arg kw ''ignore_numbers'' (PBool False)))"
| "supported_metrics E self SAS kw =
     (if bind_error [''output_key''] (text_options @ [''model'', ''batch_size'', ''device'', ''token'']) kw
      then Inl TypeError
      else calculate_sas E self (arg kw ''output_key'' PNone) (arg kw ''regexes_to_ignore'' PNone)
             (arg kw ''ignore_case'' (PBool False)) (arg kw ''ignore_punctuation'' (PBool False))
             (arg kw ''ignore_numbers'' (PBool False))
             (arg kw ''model'' (PStr ''sentence-transformers/paraphrase-multilingual-mpnet-base-v2''))
             (arg kw ''batch_size'' (PInt 32)) (arg kw ''device'' PNone) (arg kw ''token'' PNone))"

definition calculate_metrics ::
  "'o env \<Rightarrow> ('i, 'o, 's) EvaluationResult \<Rightarrow> ('i, 'o, 's) metric_arg \<Rightarrow> kwargs
     \<Rightarrow> error + MetricsResult" where
  "calculate_metrics E self metric kw =
     (case metric of
        Builtin m \<Rightarrow> supported_metrics E self m kw
      | Custom f \<Rightarrow> f self kw)"

section \<open>Running an evaluation\<close>

text \<open>
  The loop of \<open>eval\<close>: each input is run in turn, in the world the previous run
  left, and its output appended; an exception of the runnable ends the evaluation.
\<close>

fun eval_loop ::
  "('i \<Rightarrow> 's \<Rightarrow> (error + 'o) \<times> 's) \<Rightarrow> 'o list \<Rightarrow> 'i list \<Rightarrow> 's \<Rightarrow> (error + 'o list) \<times> 's" where
  "eval_loop f outs [] s = (Inr outs, s)"
| "eval_loop f outs (input # rest) s =
     (case f input s of
        (Inl e, s') \<Rightarrow> (Inl e, s')
      | (Inr output, s') \<Rightarrow> eval_loop f (outs @ [output]) rest s')"

definition eval ::
  "('i, 'o, 's) runnable \<Rightarrow> 'i list \<Rightarrow> 'o list \<Rightarrow> 's
     \<Rightarrow> (error + ('i, 'o, 's) EvaluationResult) \<times> 's" where
  "eval r ins exps s =
     (if length ins \<noteq> length exps then (Inl (ShapeError (length ins) (length exps)), s)
      else
        (case eval_loop (run r) [] ins s of
           (Inl e, s') \<Rightarrow> (Inl e, s')
         | (Inr outs, s') \<Rightarrow> (Inr (EvaluationResult_init r ins outs exps), s')))"

section \<open>The docx converter\<close>

type_synonym dict = "string \<rightharpoonup> pyval"

record 'b ByteStream =
  data :: 'b
  meta :: dict

text \<open>
  What the converter reads of a parsed docx file: the text of its paragraphs and its core
  properties. Reading a property runs a getter of the parser: the result is \<open>None\<close>
  here when the attribute does not exist (an \<open>AttributeError\<close>, so \<open>hasattr\<close> is
  false), \<open>Some (Inl e)\<close> when the getter raises another exception \<open>e\<close>, which
  \<open>hasattr\<close> lets through, and \<open>Some (Inr v)\<close> when the property has the value \<open>v\<close>.
\<close>

record DocxDocument =
  paragraphs :: "string list"
  core_properties :: "string \<Rightarrow> (error + pyval) option"

record Document =
  content :: string
  meta :: dict

text \<open>
  The collaborators of the converter: \<open>get_bytestream_from_source\<close>, and
  \<open>docx_Document\<close> for opening the bytes and reading the paragraphs. Either may raise.
\<close>

record ('src, 'b) converter_env =
  get_bytestream_from_source :: "'src \<Rightarrow> error + 'b ByteStream"
  docx_Document :: "'b \<Rightarrow> error + DocxDocument"

datatype meta_arg = MetaNone | MetaDict dict | MetaList "dict list"

text \<open>
  Modelled from the spec: \<open>normalize_metadata\<close> of
  \<open>haystack.components.converters.utils\<close>, which is not among the sources. A single
  dictionary applies to all sources, a list must be exactly as long as the sources, and
  no metadata is an empty dictionary for each source.
\<close>

definition normalize_metadata :: "meta_arg \<Rightarrow> nat \<Rightarrow> error + dict list" where
  "normalize_metadata m sources_count =
     (case m of
        MetaNone \<Rightarrow> Inr (replicate sources_count Map.empty)
      | MetaDict d \<Rightarrow> Inr (replicate sources_count d)
      | MetaList ds \<Rightarrow>
          if sources_count \<noteq> length ds
          then Inl (ValueError ''The length of the metadata list must match the number of sources.'')
          else Inr ds)"

definition props :: "string list" where
  "props = [''author'', ''category'', ''comments'', ''content_status'', ''created'',
            ''identifier'', ''keywords'', ''language'', ''last_modified_by'', ''last_printed'',
            ''modified'', ''revision'', ''subject'', ''title'', ''version'']"

text \<open>
  The loop of \<open>_get_docx_metadata\<close> over the property names, with the dictionary
  filled so far. An exception of a getter ends it.
\<close>

fun docx_metadata_loop ::
  "(string \<Rightarrow> (error + pyval) option) \<Rightarrow> string list \<Rightarrow> dict \<Rightarrow> error + dict" where
  "docx_metadata_loop cp [] docx_meta = Inr docx_meta"
| "docx_metadata_loop cp (prop # rest) docx_meta =
     (case cp prop of
        None \<Rightarrow> docx_metadata_loop cp rest docx_meta
      | Some (Inl e) \<Rightarrow> Inl e
      | Some (Inr v) \<Rightarrow>
          if v \<noteq> PNone \<and> v \<noteq> PStr []
          then docx_metadata_loop cp rest (docx_meta(''docx_'' @ prop \<mapsto> v))
          else docx_metadata_loop cp rest docx_meta)"

definition get_docx_metadata :: "DocxDocument \<Rightarrow> error + dict" where
  "get_docx_metadata document = docx_metadata_loop (core_properties document) props Map.empty"

text \<open>\<open>"\\n".join(paragraphs)\<close>\<close>

fun join_lines :: "string list \<Rightarrow> string" where
  "join_lines [] = []"
| "join_lines [p] = p"
| "join_lines (p # q # ps) = p @ [CHR 0x0A] @ join_lines (q # ps)"

datatype 'src warning =
    CouldNotRead 'src error
  | CouldNotConvert 'src error

text \<open>
  The loop of \<open>run\<close> over \<open>zip(sources, meta_list)\<close>, with the documents collected
  so far and the warnings logged so far. Reading and parsing a source stand inside a
  \<open>try\<close> each; the call of \<open>_get_docx_metadata\<close> stands after them, outside both, so an
  exception it raises leaves the loop and the call.
\<close>

fun run_loop ::
  "('src, 'b) converter_env \<Rightarrow> ('src \<times> dict) list \<Rightarrow> Document list \<Rightarrow> 'src warning list
     \<Rightarrow> (error + Document list) \<times> 'src warning list" where
  "run_loop C [] documents warnings = (Inr documents, warnings)"
| "run_loop C ((source, metadata) # rest) documents warnings =
     (case get_bytestream_from_source C source of
        Inl e \<Rightarrow> run_loop C rest documents (warnings @ [CouldNotRead source e])
      | Inr bytestream \<Rightarrow>
     (case docx_Document C (data bytestream) of
        Inl e \<Rightarrow> run_loop C rest documents (warnings @ [CouldNotConvert source e])
      | Inr file \<Rightarrow>
          (let text = join_lines (paragraphs file) in
           (case get_docx_metadata file of
              Inl e \<Rightarrow> (Inl e, warnings)
            | Inr docx_meta \<Rightarrow>
                (let merged_metadata = ByteStream.meta bytestream ++ docx_meta ++ metadata;
                     document = \<lparr> content = text, meta = merged_metadata \<rparr>
                 in run_loop C rest (documents @ [document]) warnings)))))"

definition docx_run ::
  "('src, 'b) converter_env \<Rightarrow> 'src list \<Rightarrow> meta_arg
     \<Rightarrow> (error + (string \<times> Document list) list) \<times> 'src warning list" where
  "docx_run C sources m =
     (case normalize_metadata m (length sources) of
        Inl e \<Rightarrow> (Inl e, [])
      | Inr meta_list \<Rightarrow>
          (case run_loop C (zip sources meta_list) [] [] of
             (Inl e, warnings) \<Rightarrow> (Inl e, warnings)
           | (Inr documents, warnings) \<Rightarrow> (Inr [(''documents'', documents)], warnings)))"

section \<open>The specification's reading of the F1 score\<close>

text \<open>
  The per-sample score as the specification words it: tokens are counted up to the
  minimum of their multiplicities in the prediction and the label, and precision and recall
  are that count over the number of prediction and label tokens.
\<close>

definition f1_score_spec :: "'a list \<Rightarrow> 'a list \<Rightarrow> real" where
  "f1_score_spec pred_tokens label_tokens =
     (if pred_tokens = [] \<or> label_tokens = [] then
        (if pred_tokens = [] \<and> label_tokens = [] then 1 else 0)
      else if size (mset pred_tokens \<inter># mset label_tokens) = 0 then 0
      else
        (let precision = real (size (mset pred_tokens \<inter># mset label_tokens))
                           / real (length pred_tokens);
             recall = real (size (mset pred_tokens \<inter># mset label_tokens))
                           / real (length label_tokens)
         in 2 * precision * recall / (precision + recall)))"

section \<open>Example inputs\<close>

text \<open>
  A component that echoes its input, outputs that are the answer strings themselves, no
  text normalisation, and a cross-encoder that scores equal pairs 2 and other pairs 0.
\<close>

definition echo_component :: "(string, string, unit) runnable" where
  "echo_component = \<lparr> type_name = ''Echo'', run = (\<lambda>x s. (Inr x, s)) \<rparr>"

definition identity_env :: "string env" where
  "identity_env =
     \<lparr> metrics_import_ok = True,
       get_answers_from_output = (\<lambda>outs key kind. Inr outs),
       preprocess_string = (\<lambda>regexes icase ipunct inum s. s),
       auto_config = (\<lambda>model token. Inr (Some [''BertForSequenceClassification''])),
       resolve_device = (\<lambda>device. Inr ''cpu''),
       cross_encoder_predict =
         (\<lambda>model device token pairs batch_size. Inr (map (\<lambda>(p, l). if p = l then 2 else 0) pairs)),
       encode = (\<lambda>model device token texts batch_size. Inr (map (\<lambda>t. [real (length t)]) texts)),
       cos_sim = (\<lambda>a b. 1),
       expit = (\<lambda>x. x / 2) \<rparr>"

definition paris_result :: "(string, string, unit) EvaluationResult" where
  "paris_result =
     EvaluationResult_init echo_component [''Paris'', ''7''] [''Paris'', ''7''] [''Paris'', ''seven'']"

text \<open>
  A result whose outputs hold two answers and whose expected outputs hold one, and
  collaborators that extract nothing whatever the outputs are.
\<close>

definition uneven_result :: "(string, string, unit) EvaluationResult" where
  "uneven_result = EvaluationResult_init echo_component [''q''] [''Paris'', ''7''] [''Paris'']"

definition silent_env :: "string env" where
  "silent_env = identity_env \<lparr> get_answers_from_output := (\<lambda>outs key kind. Inr []) \<rparr>"

text \<open>
  The world after the first \<open>i\<close> invocations of a \<open>run\<close> operation on a list of
  inputs, started in the world \<open>s\<close>.
\<close>

definition state_after :: "('i \<Rightarrow> 's \<Rightarrow> (error + 'o) \<times> 's) \<Rightarrow> 's \<Rightarrow> 'i list \<Rightarrow> nat \<Rightarrow> 's" where
  "state_after f s xs i = fold (\<lambda>x t. snd (f x t)) (take i xs) s"

text \<open>A component that records every input it is run on and answers with its reverse.\<close>

definition logging_component :: "(string, string, string list) runnable" where
  "logging_component =
     \<lparr> type_name = ''Reverser'', run = (\<lambda>x seen. (Inr (rev x), seen @ [x])) \<rparr>"

text \<open>
  A result whose one prediction is the label followed by a NUL character.
\<close>

definition nul_result :: "(string, string, unit) EvaluationResult" where
  "nul_result = EvaluationResult_init echo_component [''q''] [[CHR ''a'', CHR 0x00]] [''a'']"

text \<open>
  A source converts when its bytes can be read and parsed; \<open>converted\<close> gives the byte
  stream and the parsed file then. \<open>document_of\<close> is the document that the loop builds
  for a source that converts and whose core properties can be read, paired with its
  caller-supplied metadata.
\<close>

definition converted ::
  "('src, 'b) converter_env \<Rightarrow> 'src \<Rightarrow> ('b ByteStream \<times> DocxDocument) option" where
  "converted C source =
     (case get_bytestream_from_source C source of
        Inl e \<Rightarrow> None
      | Inr bytestream \<Rightarrow>
          (case docx_Document C (data bytestream) of
             Inl e \<Rightarrow> None
           | Inr file \<Rightarrow> Some (bytestream, file)))"

definition document_of :: "('src, 'b) converter_env \<Rightarrow> 'src \<times> dict \<Rightarrow> Document" where
  "document_of C z =
     (case converted C (fst z) of
        None \<Rightarrow> \<lparr> content = [], meta = Map.empty \<rparr>
      | Some (bytestream, file) \<Rightarrow>
          (case get_docx_metadata file of
             Inl e \<Rightarrow> \<lparr> content = [], meta = Map.empty \<rparr>
           | Inr docx_meta \<Rightarrow>
               \<lparr> content = join_lines (paragraphs file),
                 meta = ByteStream.meta bytestream ++ docx_meta ++ snd z \<rparr>))"

text \<open>
  A file system with two docx files, one text file and nothing else: paths are read into
  byte streams that carry the path, and only the docx files parse. The creation date of
  the second docx file is a date at the edge of the calendar with a time-zone offset, for
  which the getter of the parser raises an \<open>OverflowError\<close>.
\<close>

definition sample_docx :: DocxDocument where
  "sample_docx =
     \<lparr> paragraphs = [''History'', ''Standardization''],
       core_properties =
         (\<lambda>p. if p = ''author'' then Some (Inr (PStr ''Microsoft Office User''))
              else if p = ''revision'' then Some (Inr (PInt 2))
              else if p = ''title'' then Some (Inr (PStr []))
              else if p = ''custom'' then None
              else Some (Inr PNone)) \<rparr>"

definition overflow_docx :: DocxDocument where
  "overflow_docx =
     \<lparr> paragraphs = [''Minutes''],
       core_properties =
         (\<lambda>p. if p = ''author'' then Some (Inr (PStr ''Microsoft Office User''))
              else if p = ''created'' then Some (Inl (Raised ''OverflowError: date value out of range''))
              else Some (Inr PNone)) \<rparr>"

definition sample_files :: "(string, string) converter_env" where
  "sample_files =
     \<lparr> get_bytestream_from_source =
         (\<lambda>path. if path = ''missing.docx'' then Inl (Raised ''No such file'')
                 else Inr \<lparr> data = path,
                            meta = [''file_path'' \<mapsto> PStr path, ''docx_revision'' \<mapsto> PInt 0] \<rparr>),
       docx_Document =
         (\<lambda>bytes. if bytes = ''sample.docx'' then Inr sample_docx
                  else if bytes = ''overflow.docx'' then Inr overflow_docx
                  else Inl (Raised ''Package not found'')) \<rparr>"

section \<open>Token overlap\<close>

lemma count_list_count_mset: "count_list xs x = count (mset xs) x"
  by (induction xs) auto

lemma num_same_mset: "num_same l p = size (mset l \<inter># mset p)"
proof -
  have "num_same l p = (\<Sum>t\<in>set l. min (count (mset l) t) (count (mset p) t))"
    unfolding num_same_def
    by (simp add: sum.distinct_set_conv_list[symmetric] count_list_count_mset)
  also have "\<dots> = (\<Sum>t\<in>set_mset (mset l \<inter># mset p). count (mset l \<inter># mset p) t)"
    by (rule sum.mono_neutral_cong_right) (auto simp: not_in_iff)
  also have "\<dots> = size (mset l \<inter># mset p)"
    by (simp add: size_multiset_overloaded_eq)
  finally show ?thesis .
qed

lemma num_same_le_label: "num_same l p \<le> length l"
  by (metis num_same_mset size_mset size_mset_mono subset_mset.inf_le1)

lemma num_same_le_pred: "num_same l p \<le> length p"
  by (metis num_same_mset size_mset size_mset_mono subset_mset.inf_le2)

lemma compute_f1_single_spec: "compute_f1_single l p = f1_score_spec p l"
  by (auto simp: compute_f1_single_def f1_score_spec_def num_same_mset Let_def
        subset_mset.inf_commute)

lemma harmonic_le_one:
  fixes p r :: real
  assumes "0 < p" "p \<le> 1" "0 < r" "r \<le> 1"
  shows "2 * p * r / (p + r) \<le> 1"
proof -
  have "p * r \<le> p * 1" using assms by (intro mult_left_mono) auto
  moreover have "p * r \<le> 1 * r" using assms by (intro mult_right_mono) auto
  ultimately have "2 * p * r \<le> p + r" by simp
  moreover have "0 < p + r" using assms by simp
  ultimately show ?thesis by (simp add: divide_le_eq)
qed

lemma compute_f1_single_bounds: "0 \<le> compute_f1_single l p \<and> compute_f1_single l p \<le> 1"
proof (cases "length l = 0 \<or> length p = 0 \<or> num_same l p = 0")
  case True
  then show ?thesis by (auto simp: compute_f1_single_def)
next
  case False
  then have pos: "0 < num_same l p" "0 < length l" "0 < length p" by auto
  define pr where "pr = real (num_same l p) / real (length p)"
  define rc where "rc = real (num_same l p) / real (length l)"
  have f: "compute_f1_single l p = 2 * pr * rc / (pr + rc)"
    using False by (simp add: compute_f1_single_def pr_def rc_def Let_def)
  have b: "0 < pr" "pr \<le> 1" "0 < rc" "rc \<le> 1"
    using pos num_same_le_label[of l p] num_same_le_pred[of l p]
    by (simp_all add: pr_def rc_def)
  have "0 \<le> 2 * pr * rc / (pr + rc)" using b by simp
  with harmonic_le_one[OF b] f show ?thesis by simp
qed

lemma mean_bounds:
  assumes "\<forall>x\<in>set xs. 0 \<le> x \<and> x \<le> (1::real)"
  shows "0 \<le> mean xs \<and> mean xs \<le> 1"
proof -
  have "0 \<le> sum_list xs" using assms by (simp add: sum_list_nonneg)
  moreover have "sum_list xs \<le> real (length xs)"
    using assms by (induction xs) auto
  ultimately show ?thesis
    by (cases "xs = []") (auto simp: mean_def divide_le_eq)
qed

lemma mean_f1_bounds:
  "0 \<le> mean (map (\<lambda>(l, p). compute_f1_single l p) ps) \<and>
   mean (map (\<lambda>(l, p). compute_f1_single l p) ps) \<le> 1"
  by (rule mean_bounds) (auto simp: compute_f1_single_bounds)

lemma sum_list_map_nth: "sum_list (map f xs) = (\<Sum>i<length xs. f (xs ! i))"
  by (metis (no_types, lifting) atLeast0LessThan length_map nth_map sum.cong sum_list_sum_nth
      atLeastLessThan_iff)

lemma f1_paris: "compute_f1_single (split ''Paris'') (split ''Paris'') = 1"
  by code_simp

lemma f1_seven: "compute_f1_single (split ''seven'') (split ''7'') = 0"
  by code_simp

lemma calculate_f1_paris:
  "calculate_f1 identity_env paris_result (PStr ''answers'') PNone (PBool False) (PBool False)
     (PBool False) = Inr [(''f1'', MNum (1 / 2))]"
  using f1_paris f1_seven
  by (simp add: calculate_f1_def identity_env_def paris_result_def EvaluationResult_init_def
      preprocess_text_def mean_def np_mean_def)

text \<open>
  C1. The score of one sample is the specification's: 1 or 0 when a token list is empty
  (1 exactly when both are), 0 when no token is shared, and otherwise
  \<open>2 * precision * recall / (precision + recall)\<close> over the multiset intersection of
  the whitespace tokens. On extracted predictions and labels of one length, at least one
  sample, the F1 metric is the arithmetic mean of the scores of the samples.
\<close>

theorem calculate_f1_spec:
  assumes "get_answers_from_output E (outputs self) output_key (runnable_type self) = Inr predictions"
    and "get_answers_from_output E (expected_outputs self) output_key (runnable_type self) = Inr labels"
    and "length predictions = length labels"
    and "predictions \<noteq> []"
  shows "(\<forall>label_toks pred_toks :: string list.
            compute_f1_single label_toks pred_toks = f1_score_spec pred_toks label_toks) \<and>
         calculate_f1 E self output_key rx ic ip inn =
           Inr [(''f1'', MNum ((\<Sum>i<length predictions.
                  f1_score_spec (split (preprocess_string E rx ic ip inn (predictions ! i)))
                                (split (preprocess_string E rx ic ip inn (labels ! i))))
                / real (length predictions)))]"
proof -
  let ?pp = "preprocess_string E rx ic ip inn"
  let ?zs = "zip (map split (map ?pp labels)) (map split (map ?pp predictions))"
  have len: "length ?zs = length predictions" using assms(3) by simp
  have "sum_list (map (\<lambda>(l, p). compute_f1_single l p) ?zs)
        = (\<Sum>i<length ?zs. (\<lambda>(l, p). compute_f1_single l p) (?zs ! i))"
    by (rule sum_list_map_nth)
  also have "\<dots> = (\<Sum>i<length predictions.
        f1_score_spec (split (?pp (predictions ! i))) (split (?pp (labels ! i))))"
    unfolding len using assms(3) by (intro sum.cong) (auto simp: compute_f1_single_spec)
  finally have s: "sum_list (map (\<lambda>(l, p). compute_f1_single l p) ?zs)
      = (\<Sum>i<length predictions.
           f1_score_spec (split (?pp (predictions ! i))) (split (?pp (labels ! i))))" .
  have "?zs \<noteq> []" using len assms(4) by auto
  then have "calculate_f1 E self output_key rx ic ip inn =
      Inr [(''f1'', MNum (mean (map (\<lambda>(l, p). compute_f1_single l p) ?zs)))]"
    using assms by (auto simp add: calculate_f1_def preprocess_text_def Let_def np_mean_def)
  then show ?thesis using s len by (simp add: mean_def compute_f1_single_spec)
qed

theorem calculate_f1_spec_witness:
  "calculate_f1 identity_env paris_result (PStr ''answers'') PNone (PBool False) (PBool False)
     (PBool False) = Inr [(''f1'', MNum (1 / 2))]"
  using calculate_f1_spec[of identity_env paris_result "PStr ''answers''" "[''Paris'', ''7'']"
      "[''Paris'', ''seven'']" PNone "PBool False" "PBool False" "PBool False"]
    f1_paris f1_seven
  by (simp add: identity_env_def paris_result_def EvaluationResult_init_def
      numeral_2_eq_2 lessThan_Suc)

text \<open>
  C10. For all token lists the score of one sample lies between 0 and 1; so does the mean
  over any samples, and so does every F1 value that the metric returns.
\<close>

theorem f1_in_unit_interval:
  "0 \<le> compute_f1_single label_toks pred_toks \<and> compute_f1_single label_toks pred_toks \<le> 1 \<and>
   (pairs \<noteq> [] \<longrightarrow>
      0 \<le> mean (map (\<lambda>(l, p). compute_f1_single l p) pairs) \<and>
      mean (map (\<lambda>(l, p). compute_f1_single l p) pairs) \<le> 1) \<and>
   (\<forall>r. calculate_f1 E self output_key rx ic ip inn = Inr r \<longrightarrow>
      (\<exists>x. r = [(''f1'', MNum x)] \<and> 0 \<le> x \<and> x \<le> 1))"
proof -
  have "\<exists>x. r = [(''f1'', MNum x)] \<and> 0 \<le> x \<and> x \<le> 1"
    if "calculate_f1 E self output_key rx ic ip inn = Inr r" for r
    using that
    by (auto simp: calculate_f1_def Let_def np_mean_def preprocess_text_def
          mean_f1_bounds[THEN conjunct1] mean_f1_bounds[THEN conjunct2]
          split: sum.splits if_splits)
  then show ?thesis
    using compute_f1_single_bounds[of label_toks pred_toks] mean_f1_bounds[of pairs] by blast
qed

theorem f1_in_unit_interval_witness:
  "0 \<le> compute_f1_single [''the'', ''cat''] [''the'', ''the'', ''dog''] \<and>
   compute_f1_single [''the'', ''cat''] [''the'', ''the'', ''dog''] \<le> 1 \<and>
   0 \<le> mean (map (\<lambda>(l, p). compute_f1_single l p) [([''a''], [''a'', ''b''])]) \<and>
   mean (map (\<lambda>(l, p). compute_f1_single l p) [([''a''], [''a'', ''b''])]) \<le> 1 \<and>
   (\<exists>x. calculate_f1 identity_env paris_result (PStr ''answers'') PNone (PBool False) (PBool False)
           (PBool False) = Inr [(''f1'', MNum x)] \<and> 0 \<le> x \<and> x \<le> 1)"
  using f1_in_unit_interval[of "[''the'', ''cat'']" "[''the'', ''the'', ''dog'']"
      "[([''a''], [''a'', ''b''])]" identity_env paris_result "PStr ''answers''" PNone
      "PBool False" "PBool False" "PBool False"]
    calculate_f1_paris
  by simp

section \<open>Early exits of the metrics\<close>

text \<open>
  C3. When the extracted predictions and labels differ in length, the EM, F1 and SAS
  computations each fail with the length-mismatch error. The error does not depend on the
  collaborators that normalise and score: they may be replaced by any others, also by ones
  that always raise, so none of them has run when the error is raised. For SAS the
  sequences are extracted only after the check of the optional imports has passed.
\<close>

theorem length_mismatch_raised:
  assumes "get_answers_from_output E (outputs self) output_key (runnable_type self) = Inr predictions"
    and "get_answers_from_output E (expected_outputs self) output_key (runnable_type self) = Inr labels"
    and "length predictions \<noteq> length labels"
  shows "calculate_em (E\<lparr>preprocess_string := pp\<rparr>) self output_key rx ic ip inn
           = Inl length_mismatch \<and>
         calculate_f1 (E\<lparr>preprocess_string := pp\<rparr>) self output_key rx ic ip inn
           = Inl length_mismatch \<and>
         (metrics_import_ok E \<longrightarrow>
            calculate_sas (E\<lparr>preprocess_string := pp, auto_config := ac, resolve_device := rd,
                              cross_encoder_predict := cp, encode := en, cos_sim := cs,
                              expit := ex\<rparr>)
              self output_key rx ic ip inn model batch_size device token
           = Inl length_mismatch)"
  using assms by (simp add: calculate_em_def calculate_f1_def calculate_sas_def)

theorem length_mismatch_raised_witness:
  "calculate_em (identity_env\<lparr>preprocess_string := (\<lambda>a b c d s. [])\<rparr>) uneven_result
      (PStr ''answers'') PNone (PBool False) (PBool False) (PBool False) = Inl length_mismatch \<and>
   calculate_f1 (identity_env\<lparr>preprocess_string := (\<lambda>a b c d s. [])\<rparr>) uneven_result
      (PStr ''answers'') PNone (PBool False) (PBool False) (PBool False) = Inl length_mismatch \<and>
   calculate_sas (identity_env\<lparr>preprocess_string := (\<lambda>a b c d s. []),
        auto_config := (\<lambda>m t. Inl (Raised ''config'')),
        resolve_device := (\<lambda>d. Inl (Raised ''device'')),
        cross_encoder_predict := (\<lambda>m d t ps b. Inl (Raised ''predict'')),
        encode := (\<lambda>m d t xs b. Inl (Raised ''encode'')),
        cos_sim := (\<lambda>a b. 0), expit := (\<lambda>x. 0)\<rparr>) uneven_result
      (PStr ''answers'') PNone (PBool False) (PBool False) (PBool False)
      (PStr ''cross-encoder/stsb-roberta-base'') (PInt 32) PNone PNone = Inl length_mismatch"
  using length_mismatch_raised[where E = identity_env and self = uneven_result
      and output_key = "PStr ''answers''" and predictions = "[''Paris'', ''7'']"
      and labels = "[''Paris'']" and pp = "\<lambda>a b c d s. []" and rx = PNone
      and ic = "PBool False" and ip = "PBool False" and inn = "PBool False"
      and ac = "\<lambda>m t. Inl (Raised ''config'')" and rd = "\<lambda>d. Inl (Raised ''device'')"
      and cp = "\<lambda>m d t ps b. Inl (Raised ''predict'')"
      and en = "\<lambda>m d t xs b. Inl (Raised ''encode'')"
      and cs = "\<lambda>a b. 0" and ex = "\<lambda>x. 0"
      and model = "PStr ''cross-encoder/stsb-roberta-base''" and batch_size = "PInt 32"
      and device = PNone and token = PNone]
  by (simp add: identity_env_def uneven_result_def EvaluationResult_init_def)

text \<open>
  C4. When the extracted predictions and labels are both empty, EM and F1 return the
  score 0 without error, and SAS returns the score 0 with the one-element score list
  \<open>[0]\<close>, whatever the outputs of the evaluation result are.
\<close>

theorem zero_samples:
  assumes "get_answers_from_output E (outputs self) output_key (runnable_type self) = Inr []"
    and "get_answers_from_output E (expected_outputs self) output_key (runnable_type self) = Inr []"
  shows "calculate_em E self output_key rx ic ip inn = Inr [(''exact_match'', MNum 0)] \<and>
         calculate_f1 E self output_key rx ic ip inn = Inr [(''f1'', MNum 0)] \<and>
         (metrics_import_ok E \<longrightarrow>
            calculate_sas E self output_key rx ic ip inn model batch_size device token
              = Inr [(''sas'', MNum 0), (''scores'', MScores [0])])"
  using assms by (simp add: calculate_em_def calculate_f1_def calculate_sas_def)

theorem zero_samples_witness:
  "length (outputs paris_result) = 2 \<and>
   calculate_em silent_env paris_result (PStr ''answers'') PNone (PBool False) (PBool False)
      (PBool False) = Inr [(''exact_match'', MNum 0)] \<and>
   calculate_f1 silent_env paris_result (PStr ''answers'') PNone (PBool False) (PBool False)
      (PBool False) = Inr [(''f1'', MNum 0)] \<and>
   calculate_sas silent_env paris_result (PStr ''answers'') PNone (PBool False) (PBool False)
      (PBool False) (PStr ''cross-encoder/stsb-roberta-base'') (PInt 32) PNone PNone
      = Inr [(''sas'', MNum 0), (''scores'', MScores [0])]"
  using zero_samples[where E = silent_env and self = paris_result
      and output_key = "PStr ''answers''" and rx = PNone
      and ic = "PBool False" and ip = "PBool False" and inn = "PBool False"
      and model = "PStr ''cross-encoder/stsb-roberta-base''" and batch_size = "PInt 32"
      and device = PNone and token = PNone]
  by (simp add: silent_env_def identity_env_def paris_result_def EvaluationResult_init_def)

section \<open>The metrics that are not computed\<close>

text \<open>
  The stubs for recall, MRR and MAP take no parameters, while \<open>calculate_metrics\<close>
  passes every keyword argument on: an invocation with a keyword argument fails.
\<close>

theorem stub_metrics_counterexample:
  "calculate_metrics identity_env paris_result (Builtin RECALL) [(''output_key'', PStr ''answers'')]
     = Inl TypeError"
  by (simp add: calculate_metrics_def bind_error_def)

text \<open>
  C6 (amended). An invocation of \<open>calculate_metrics\<close> with RECALL, MRR or MAP and no
  keyword arguments returns a result whose single value is \<open>None\<close>, neither an error
  nor a number; with any keyword argument it fails with a \<open>TypeError\<close>.
\<close>

theorem stub_metrics_not_computed:
  "calculate_metrics E self (Builtin RECALL) [] = Inr [(''recall'', MNone)] \<and>
   calculate_metrics E self (Builtin MRR) [] = Inr [(''mean_reciprocal_rank'', MNone)] \<and>
   calculate_metrics E self (Builtin MAP) [] = Inr [(''mean_average_precision'', MNone)] \<and>
   (kw \<noteq> [] \<longrightarrow>
      calculate_metrics E self (Builtin RECALL) kw = Inl TypeError \<and>
      calculate_metrics E self (Builtin MRR) kw = Inl TypeError \<and>
      calculate_metrics E self (Builtin MAP) kw = Inl TypeError)"
  by (cases kw)
     (simp_all add: calculate_metrics_def bind_error_def calculate_recall_def calculate_mrr_def
        calculate_map_def)

theorem stub_metrics_not_computed_witness:
  "calculate_metrics identity_env paris_result (Builtin RECALL) [] = Inr [(''recall'', MNone)] \<and>
   calculate_metrics identity_env paris_result (Builtin MRR) []
     = Inr [(''mean_reciprocal_rank'', MNone)] \<and>
   calculate_metrics identity_env paris_result (Builtin MAP) []
     = Inr [(''mean_average_precision'', MNone)] \<and>
   calculate_metrics identity_env paris_result (Builtin MRR) [(''top_k'', PInt 5)] = Inl TypeError"
  using stub_metrics_not_computed[where E = identity_env and self = paris_result
      and kw = "[(''top_k'', PInt 5)]"]
  by simp

section \<open>Normalising cross-encoder scores\<close>

lemma cross_encoder_used_bert: "cross_encoder_used (Some [''BertForSequenceClassification''])"
  by (simp add: cross_encoder_used_def endswith_def)

text \<open>
  C7. On the cross-encoder path, with the raw scores that the model predicts for the
  pairs: if any one score exceeds 1 the returned scores are the logistic function applied
  to every raw score, and if none does they are the raw scores unchanged.
\<close>

theorem cross_encoder_normalisation:
  assumes "metrics_import_ok E"
    and "get_answers_from_output E (outputs self) output_key (runnable_type self) = Inr predictions"
    and "get_answers_from_output E (expected_outputs self) output_key (runnable_type self) = Inr labels"
    and "length predictions = length labels"
    and "predictions \<noteq> []"
    and "auto_config E model token = Inr architectures"
    and "cross_encoder_used architectures"
    and "resolve_device E device = Inr torch_device"
    and "cross_encoder_predict E model torch_device token
           (zip (map (preprocess_string E rx ic ip inn) predictions)
                (map (preprocess_string E rx ic ip inn) labels)) batch_size = Inr raw_scores"
  shows "((\<exists>s\<in>set raw_scores. 1 < s) \<longrightarrow>
            calculate_sas E self output_key rx ic ip inn model batch_size device token
              = Inr [(''sas'', np_mean (map (expit E) raw_scores)),
                     (''scores'', MScores (map (expit E) raw_scores))]) \<and>
         ((\<forall>s\<in>set raw_scores. s \<le> 1) \<longrightarrow>
            calculate_sas E self output_key rx ic ip inn model batch_size device token
              = Inr [(''sas'', np_mean raw_scores), (''scores'', MScores raw_scores)])"
proof -
  have ex: "list_ex (\<lambda>s. 1 < s) raw_scores \<longleftrightarrow> (\<exists>s\<in>set raw_scores. 1 < s)"
    by (simp add: list_ex_iff)
  have "calculate_sas E self output_key rx ic ip inn model batch_size device token
      = (let similarity_scores = (if list_ex (\<lambda>s. 1 < s) raw_scores then map (expit E) raw_scores
                                  else raw_scores)
         in Inr [(''sas'', np_mean similarity_scores), (''scores'', MScores similarity_scores)])"
    using assms by (auto simp: calculate_sas_def preprocess_text_def Let_def)
  then show ?thesis unfolding ex by (auto simp: Let_def not_less)
qed

theorem cross_encoder_normalisation_witness:
  "calculate_sas identity_env paris_result (PStr ''answers'') PNone (PBool False) (PBool False)
      (PBool False) (PStr ''cross-encoder/stsb-roberta-base'') (PInt 32) PNone PNone
     = Inr [(''sas'', MNum (1 / 2)), (''scores'', MScores [1, 0])]"
proof -
  have "calculate_sas identity_env paris_result (PStr ''answers'') PNone (PBool False) (PBool False)
      (PBool False) (PStr ''cross-encoder/stsb-roberta-base'') (PInt 32) PNone PNone
     = Inr [(''sas'', np_mean (map (expit identity_env) [2, 0])),
            (''scores'', MScores (map (expit identity_env) [2, 0]))]"
    using cross_encoder_normalisation[where E = identity_env and self = paris_result
        and output_key = "PStr ''answers''" and predictions = "[''Paris'', ''7'']"
        and labels = "[''Paris'', ''seven'']" and rx = PNone
        and ic = "PBool False" and ip = "PBool False" and inn = "PBool False"
        and model = "PStr ''cross-encoder/stsb-roberta-base''" and batch_size = "PInt 32"
        and device = PNone and token = PNone
        and architectures = "Some [''BertForSequenceClassification'']"
        and torch_device = "''cpu''" and raw_scores = "[2, 0]"]
      cross_encoder_used_bert
    by (simp add: identity_env_def paris_result_def EvaluationResult_init_def)
  then show ?thesis by (simp add: identity_env_def mean_def np_mean_def)
qed

section \<open>The evaluation loop\<close>

lemma state_after_0: "state_after f s xs 0 = s"
  by (simp add: state_after_def)

lemma state_after_Cons: "state_after f s (x # xs) (Suc i) = state_after f (snd (f x s)) xs i"
  by (simp add: state_after_def)

lemma eval_loop_Inr:
  "eval_loop f outs xs s = (Inr res, s') \<Longrightarrow>
     \<exists>new. res = outs @ new \<and> length new = length xs \<and>
       (\<forall>i<length xs. f (xs ! i) (state_after f s xs i)
                        = (Inr (new ! i), state_after f s xs (Suc i))) \<and>
       s' = state_after f s xs (length xs)"
proof (induction xs arbitrary: outs s)
  case Nil
  then show ?case by (simp add: state_after_def)
next
  case (Cons x xs)
  obtain a s1 where fx: "f x s = (a, s1)" by (cases "f x s")
  with Cons.prems obtain out where a: "a = Inr out"
    by (cases a) auto
  with fx Cons.prems have "eval_loop f (outs @ [out]) xs s1 = (Inr res, s')" by simp
  from Cons.IH[OF this] obtain new where new: "res = (outs @ [out]) @ new" "length new = length xs"
    "\<forall>i<length xs. f (xs ! i) (state_after f s1 xs i) = (Inr (new ! i), state_after f s1 xs (Suc i))"
    "s' = state_after f s1 xs (length xs)" by blast
  have s1: "snd (f x s) = s1" using fx by simp
  have "\<forall>i<length (x # xs). f ((x # xs) ! i) (state_after f s (x # xs) i)
          = (Inr ((out # new) ! i), state_after f s (x # xs) (Suc i))"
  proof (intro allI impI)
    fix i assume i: "i < length (x # xs)"
    show "f ((x # xs) ! i) (state_after f s (x # xs) i)
          = (Inr ((out # new) ! i), state_after f s (x # xs) (Suc i))"
    proof (cases i)
      case 0
      then show ?thesis using fx a by (simp add: state_after_0 state_after_Cons)
    next
      case (Suc j)
      then show ?thesis using i new(3) s1 by (simp add: state_after_Cons)
    qed
  qed
  moreover have "res = outs @ (out # new)" using new(1) by simp
  moreover have "length (out # new) = length (x # xs)" using new(2) by simp
  moreover have "s' = state_after f s (x # xs) (length (x # xs))"
    using new(4) s1 by (simp add: state_after_Cons)
  ultimately show ?case by blast
qed

lemma eval_loop_total:
  "(\<forall>i<length xs. \<exists>out. fst (f (xs ! i) (state_after f s xs i)) = Inr out) \<Longrightarrow>
     \<exists>res s'. eval_loop f outs xs s = (Inr res, s')"
proof (induction xs arbitrary: outs s)
  case Nil
  then show ?case by simp
next
  case (Cons x xs)
  from Cons.prems[rule_format, of 0] obtain out where "fst (f x s) = Inr out"
    by (auto simp: state_after_0)
  then obtain s1 where fx: "f x s = (Inr out, s1)" by (cases "f x s") auto
  have "\<forall>i<length xs. \<exists>out. fst (f (xs ! i) (state_after f s1 xs i)) = Inr out"
  proof (intro allI impI)
    fix i assume "i < length xs"
    then show "\<exists>out. fst (f (xs ! i) (state_after f s1 xs i)) = Inr out"
      using Cons.prems[rule_format, of "Suc i"] fx by (simp add: state_after_Cons)
  qed
  from Cons.IH[OF this, of "outs @ [out]"] show ?case using fx by simp
qed

lemma eval_logging:
  "eval logging_component [''ab'', ''cd''] [''ba'', ''dc''] []
     = (Inr (EvaluationResult_init logging_component [''ab'', ''cd''] [''ba'', ''dc''] [''ba'', ''dc'']),
        [''ab'', ''cd''])"
  by (simp add: eval_def logging_component_def)

text \<open>
  C5. When the numbers of inputs and expected outputs differ, \<open>eval\<close> fails with the
  shape error and leaves the world as it was: the runnable has not been invoked. When
  they agree and \<open>eval\<close> returns, the result holds the inputs and expected outputs
  given, its three sequences have one length, and output \<open>i\<close> is what the runnable
  returned on input \<open>i\<close> in the world left by the invocations on the inputs before it;
  and \<open>eval\<close> does return when each of these invocations returns.
\<close>

theorem eval_contract:
  "(length ins \<noteq> length exps \<longrightarrow>
      eval r ins exps s = (Inl (ShapeError (length ins) (length exps)), s)) \<and>
   (length ins = length exps \<longrightarrow>
      (\<forall>res s'. eval r ins exps s = (Inr res, s') \<longrightarrow>
         inputs res = ins \<and> expected_outputs res = exps \<and>
         length (inputs res) = length (outputs res) \<and>
         length (outputs res) = length (expected_outputs res) \<and>
         (\<forall>i<length ins. run r (ins ! i) (state_after (run r) s ins i)
                           = (Inr (outputs res ! i), state_after (run r) s ins (Suc i))) \<and>
         s' = state_after (run r) s ins (length ins)) \<and>
      ((\<forall>i<length ins. \<exists>out. fst (run r (ins ! i) (state_after (run r) s ins i)) = Inr out) \<longrightarrow>
         (\<exists>res s'. eval r ins exps s = (Inr res, s'))))"
proof (intro conjI impI allI)
  assume "length ins \<noteq> length exps"
  then show "eval r ins exps s = (Inl (ShapeError (length ins) (length exps)), s)"
    by (simp add: eval_def)
next
  fix res s'
  assume len: "length ins = length exps" and ev: "eval r ins exps s = (Inr res, s')"
  obtain a t where lp: "eval_loop (run r) [] ins s = (a, t)" by (cases "eval_loop (run r) [] ins s")
  with ev len obtain outs where a: "a = Inr outs" and res: "res = EvaluationResult_init r ins outs exps"
    and t: "t = s'"
    by (cases a) (auto simp: eval_def)
  from eval_loop_Inr[of "run r" "[]" ins s outs s'] lp a t
  have outs: "length outs = length ins"
    "\<forall>i<length ins. run r (ins ! i) (state_after (run r) s ins i)
        = (Inr (outs ! i), state_after (run r) s ins (Suc i))"
    "s' = state_after (run r) s ins (length ins)" by auto
  show "inputs res = ins" "expected_outputs res = exps"
    "length (inputs res) = length (outputs res)"
    "length (outputs res) = length (expected_outputs res)"
    "s' = state_after (run r) s ins (length ins)"
    using res outs len by (simp_all add: EvaluationResult_init_def)
  fix i assume "i < length ins"
  then show "run r (ins ! i) (state_after (run r) s ins i)
      = (Inr (outputs res ! i), state_after (run r) s ins (Suc i))"
    using outs(2) res by (simp add: EvaluationResult_init_def)
next
  assume len: "length ins = length exps"
    and ok: "\<forall>i<length ins. \<exists>out. fst (run r (ins ! i) (state_after (run r) s ins i)) = Inr out"
  from eval_loop_total[OF ok, of "[]"] obtain outs t where "eval_loop (run r) [] ins s = (Inr outs, t)"
    by blast
  then show "\<exists>res s'. eval r ins exps s = (Inr res, s')"
    using len by (simp add: eval_def)
qed

theorem eval_contract_witness:
  "eval logging_component [''ab'', ''cd''] [''ba''] [] = (Inl (ShapeError 2 1), []) \<and>
   (\<exists>res. eval logging_component [''ab'', ''cd''] [''ba'', ''dc''] [] = (Inr res, [''ab'', ''cd'']) \<and>
      outputs res = [''ba'', ''dc''] \<and>
      length (inputs res) = length (outputs res) \<and>
      length (outputs res) = length (expected_outputs res))"
proof -
  have "eval logging_component [''ab'', ''cd''] [''ba''] [] = (Inl (ShapeError 2 1), [])"
    using eval_contract[of "[''ab'', ''cd'']" "[''ba'']" logging_component "[]"] by simp
  moreover have "length (inputs res) = length (outputs res) \<and>
      length (outputs res) = length (expected_outputs res)"
    if "res = EvaluationResult_init logging_component [''ab'', ''cd''] [''ba'', ''dc''] [''ba'', ''dc'']"
    for res
    using eval_contract[of "[''ab'', ''cd'']" "[''ba'', ''dc'']" logging_component "[]"]
      eval_logging that by simp
  ultimately show ?thesis
    using eval_logging by (auto simp: EvaluationResult_init_def)
qed

section \<open>Exact match\<close>

text \<open>
  What the code computes on extracted predictions and labels of one length, at least one
  sample: the number of positions at which the normalised prediction and the normalised
  label are equal up to trailing NUL characters, divided by the number of samples.
\<close>

lemma sum_list_np_equal:
  "sum_list (map (\<lambda>(p, l). if np_str_equal p l then (1::real) else 0) zs)
     = real (length (filter (\<lambda>(p, l). np_str_equal p l) zs))"
  by (induction zs) auto

lemma np_equal_count:
  assumes "length ps = length ls"
  shows "length (filter (\<lambda>(p, l). np_str_equal p l) (zip ps ls))
           = card {i. i < length ps \<and> np_str_equal (ps ! i) (ls ! i)}"
proof -
  have "length (filter (\<lambda>(p, l). np_str_equal p l) (zip ps ls))
      = card {i. i < length (zip ps ls) \<and> (\<lambda>(p, l). np_str_equal p l) (zip ps ls ! i)}"
    by (rule length_filter_conv_card)
  also have "{i. i < length (zip ps ls) \<and> (\<lambda>(p, l). np_str_equal p l) (zip ps ls ! i)}
      = {i. i < length ps \<and> np_str_equal (ps ! i) (ls ! i)}"
    using assms by auto
  finally show ?thesis .
qed

lemma calculate_em_np_fraction:
  assumes "get_answers_from_output E (outputs self) output_key (runnable_type self) = Inr predictions"
    and "get_answers_from_output E (expected_outputs self) output_key (runnable_type self) = Inr labels"
    and "length predictions = length labels"
    and "predictions \<noteq> []"
  shows "\<exists>x. calculate_em E self output_key rx ic ip inn = Inr [(''exact_match'', MNum x)] \<and>
             x = real (card {i. i < length predictions \<and>
                     np_str_equal (preprocess_string E rx ic ip inn (predictions ! i))
                                  (preprocess_string E rx ic ip inn (labels ! i))})
                 / real (length predictions) \<and>
             0 \<le> x \<and> x \<le> 1"
proof -
  let ?pp = "preprocess_string E rx ic ip inn"
  let ?ps = "map ?pp predictions" and ?ls = "map ?pp labels"
  let ?n = "card {i. i < length predictions \<and> np_str_equal (?pp (predictions ! i)) (?pp (labels ! i))}"
  have len: "length ?ps = length ?ls" using assms(3) by simp
  have eqset: "{i. i < length ?ps \<and> np_str_equal (?ps ! i) (?ls ! i)}
      = {i. i < length predictions \<and> np_str_equal (?pp (predictions ! i)) (?pp (labels ! i))}"
    using assms(3) by auto
  have cnt: "length (filter (\<lambda>(p, l). np_str_equal p l) (zip ?ps ?ls)) = ?n"
    using np_equal_count[OF len] eqset by simp
  have sm: "sum_list (map (\<lambda>(p, l). if np_str_equal p l then (1::real) else 0) (zip ?ps ?ls)) = real ?n"
    using sum_list_np_equal[of "zip ?ps ?ls"] cnt by simp
  have res: "calculate_em E self output_key rx ic ip inn =
      Inr [(''exact_match'', MNum (real ?n / real (length predictions)))]"
    using assms sm by (auto simp: calculate_em_def preprocess_text_def Let_def mean_def np_mean_def)
  have "?n \<le> card {i. i < length predictions}"
    by (rule card_mono) auto
  then have le: "?n \<le> length predictions" by simp
  have "0 \<le> real ?n / real (length predictions)" by simp
  moreover have "real ?n / real (length predictions) \<le> 1"
    using le assms(4) by (simp add: divide_le_eq)
  ultimately show ?thesis using res by blast
qed

text \<open>
  C2. The exact match score is to be the fraction of samples whose normalised prediction
  is exactly equal to the normalised label. The code departs from it: for the one
  prediction \<open>a\<close> followed by a NUL character and the label \<open>a\<close>, which are not
  equal, it returns the score 1.
\<close>

theorem calculate_em_trailing_nul:
  "[CHR ''a'', CHR 0x00] \<noteq> ''a'' \<and>
   calculate_em identity_env nul_result (PStr ''answers'') PNone (PBool False) (PBool False)
     (PBool False) = Inr [(''exact_match'', MNum 1)]"
  by (simp add: calculate_em_def identity_env_def nul_result_def EvaluationResult_init_def
      preprocess_text_def mean_def np_mean_def np_str_equal_def rstrip_nul_def)

section \<open>The docx converter: a source whose properties cannot be read\<close>

text \<open>
  C8. One bad source is not to make the call fail. The code departs from it: of three
  sources, the first converts, the third cannot be read, and the second can be read and
  parsed but the getter of its creation date raises; the call then returns no documents
  and ends with that exception.
\<close>

theorem docx_run_property_error:
  "converted sample_files ''sample.docx'' \<noteq> None \<and>
   converted sample_files ''overflow.docx'' \<noteq> None \<and>
   docx_run sample_files [''sample.docx'', ''overflow.docx'', ''missing.docx''] MetaNone
     = (Inl (Raised ''OverflowError: date value out of range''), [])"
  by (simp add: docx_run_def normalize_metadata_def numeral_3_eq_3 converted_def sample_files_def
      get_docx_metadata_def props_def sample_docx_def overflow_docx_def)

section \<open>The docx converter: merged metadata\<close>

lemma docx_metadata_loop_lookup:
  "docx_metadata_loop cp ps m = Inr dm \<Longrightarrow>
     dm k = (if \<exists>p\<in>set ps. k = ''docx_'' @ p \<and>
                   (\<exists>v. cp p = Some (Inr v) \<and> v \<noteq> PNone \<and> v \<noteq> PStr [])
             then (case cp (drop 5 k) of Some (Inr v) \<Rightarrow> Some v | _ \<Rightarrow> None)
             else m k)"
proof (induction ps arbitrary: m)
  case Nil
  then show ?case by simp
next
  case (Cons q ps)
  show ?case
  proof (cases "cp q")
    case None
    with Cons.prems have "docx_metadata_loop cp ps m = Inr dm" by simp
    from Cons.IH[OF this] None show ?thesis by auto
  next
    case (Some r)
    show ?thesis
    proof (cases r)
      case (Inl e)
      with Some Cons.prems show ?thesis by simp
    next
      case (Inr v)
      show ?thesis
      proof (cases "v \<noteq> PNone \<and> v \<noteq> PStr []")
        case True
        with Some Inr Cons.prems
        have "docx_metadata_loop cp ps (m(''docx_'' @ q \<mapsto> v)) = Inr dm" by simp
        from Cons.IH[OF this] Some Inr True show ?thesis by auto
      next
        case False
        with Some Inr Cons.prems have "docx_metadata_loop cp ps m = Inr dm" by auto
        from Cons.IH[OF this] Some Inr False show ?thesis by auto
      qed
    qed
  qed
qed

lemma get_docx_metadata_iff:
  assumes "get_docx_metadata parsed = Inr dm"
  shows "dm k = Some v \<longleftrightarrow>
     (\<exists>p\<in>set props. k = ''docx_'' @ p \<and> core_properties parsed p = Some (Inr v) \<and>
                     v \<noteq> PNone \<and> v \<noteq> PStr [])"
  using docx_metadata_loop_lookup[OF assms[unfolded get_docx_metadata_def], of k]
  by (auto split: if_splits)

lemma length_props: "length props = 15"
  by (simp add: props_def)

lemma run_loop_Inr:
  "run_loop C zs documents warnings = (Inr ds, ws) \<Longrightarrow>
     ds = documents @ map (document_of C) (filter (\<lambda>z. converted C (fst z) \<noteq> None) zs) \<and>
     (\<forall>z\<in>set zs. \<forall>bytestream parsed. converted C (fst z) = Some (bytestream, parsed) \<longrightarrow>
        (\<exists>dm. get_docx_metadata parsed = Inr dm))"
proof (induction zs arbitrary: documents warnings)
  case Nil
  then show ?case by simp
next
  case (Cons z zs)
  obtain source metadata where z: "z = (source, metadata)" by (cases z)
  show ?case
  proof (cases "converted C source")
    case None
    then have "\<exists>w. run_loop C (z # zs) documents warnings = run_loop C zs documents w"
      unfolding z by (auto simp: converted_def split: sum.splits)
    then obtain w where "run_loop C zs documents w = (Inr ds, ws)" using Cons.prems by auto
    from Cons.IH[OF this] None show ?thesis unfolding z by simp
  next
    case (Some bf)
    obtain bytestream parsed where bf: "bf = (bytestream, parsed)" by (cases bf)
    have rd: "get_bytestream_from_source C source = Inr bytestream"
      "docx_Document C (data bytestream) = Inr parsed"
      using Some bf by (auto simp: converted_def split: sum.splits)
    show ?thesis
    proof (cases "get_docx_metadata parsed")
      case (Inl e)
      with rd Cons.prems show ?thesis unfolding z by simp
    next
      case (Inr dm)
      let ?doc = "\<lparr> content = join_lines (paragraphs parsed),
                     meta = ByteStream.meta bytestream ++ dm ++ metadata \<rparr>"
      have "run_loop C zs (documents @ [?doc]) warnings = (Inr ds, ws)"
        using rd Inr Cons.prems unfolding z by (simp add: Let_def)
      from Cons.IH[OF this] have ih: "ds = (documents @ [?doc])
            @ map (document_of C) (filter (\<lambda>z. converted C (fst z) \<noteq> None) zs)"
        "\<forall>z\<in>set zs. \<forall>bytestream parsed. converted C (fst z) = Some (bytestream, parsed) \<longrightarrow>
           (\<exists>dm. get_docx_metadata parsed = Inr dm)" by auto
      have d: "document_of C (source, metadata) = ?doc"
        using Some bf Inr by (simp add: document_of_def)
      show ?thesis unfolding z using ih d Some bf Inr by auto
    qed
  qed
qed

lemma docx_run_Inr:
  assumes "normalize_metadata m (length sources) = Inr meta_list"
    and "docx_run C sources m = (Inr [(''documents'', documents)], warnings)"
  shows "run_loop C (zip sources meta_list) [] [] = (Inr documents, warnings)"
  using assms by (auto simp: docx_run_def split: prod.splits sum.splits)

lemma converted_sample:
  "converted sample_files ''sample.docx''
     = Some (\<lparr> data = ''sample.docx'',
                meta = [''file_path'' \<mapsto> PStr ''sample.docx'', ''docx_revision'' \<mapsto> PInt 0] \<rparr>,
             sample_docx)"
  "converted sample_files ''missing.docx'' = None"
  by (simp_all add: converted_def sample_files_def)

lemma sample_docx_metadata:
  "get_docx_metadata sample_docx
     = Inr [''docx_author'' \<mapsto> PStr ''Microsoft Office User'', ''docx_revision'' \<mapsto> PInt 2]"
  by (simp add: get_docx_metadata_def props_def sample_docx_def)

lemma docx_run_sample:
  "docx_run sample_files [''missing.docx'', ''sample.docx''] (MetaDict md)
     = (Inr [(''documents'', [document_of sample_files (''sample.docx'', md)])],
        [CouldNotRead ''missing.docx'' (Raised ''No such file'')])"
  by (simp add: docx_run_def normalize_metadata_def numeral_2_eq_2 document_of_def
      converted_sample sample_docx_metadata)
    (simp add: sample_files_def sample_docx_metadata)



text \<open>
  C9. When the call returns, there is one document for each source that converts, and
  the meta of the document produced for such a source is, key by key, the caller-supplied
  value if there is one, else the docx core property stored under that key if there is
  one, else the value the byte stream carries. The docx properties stored are those of
  the fifteen listed names whose value is neither \<open>None\<close> nor the empty string, each
  under its name prefixed with \<open>docx_\<close>.
\<close>

theorem document_meta_merge:
  assumes "normalize_metadata m (length sources) = Inr meta_list"
    and "docx_run C sources m = (Inr [(''documents'', documents)], warnings)"
  shows
    "length documents = length (filter (\<lambda>z. converted C (fst z) \<noteq> None) (zip sources meta_list)) \<and>
     (\<forall>j<length documents. \<forall>source metadata bytestream parsed.
         filter (\<lambda>z. converted C (fst z) \<noteq> None) (zip sources meta_list) ! j = (source, metadata) \<longrightarrow>
         converted C source = Some (bytestream, parsed) \<longrightarrow>
         (\<exists>docx_meta.
            get_docx_metadata parsed = Inr docx_meta \<and>
            (\<forall>k. meta (documents ! j) k =
               (case metadata k of
                  Some v \<Rightarrow> Some v
                | None \<Rightarrow> (case docx_meta k of
                             Some v \<Rightarrow> Some v
                           | None \<Rightarrow> ByteStream.meta bytestream k))) \<and>
            (\<forall>k v. docx_meta k = Some v \<longleftrightarrow>
               (\<exists>p\<in>set props. k = ''docx_'' @ p \<and> core_properties parsed p = Some (Inr v) \<and>
                               v \<noteq> PNone \<and> v \<noteq> PStr [])))) \<and>
     length props = 15"
proof -
  let ?zs = "zip sources meta_list"
  let ?good = "filter (\<lambda>z. converted C (fst z) \<noteq> None) ?zs"
  from run_loop_Inr[OF docx_run_Inr[OF assms]]
  have docs: "documents = map (document_of C) ?good"
    and ok: "\<forall>z\<in>set ?zs. \<forall>bytestream parsed. converted C (fst z) = Some (bytestream, parsed) \<longrightarrow>
        (\<exists>dm. get_docx_metadata parsed = Inr dm)"
    by auto
  have len: "length documents = length ?good" unfolding docs by simp
  have one: "\<exists>docx_meta.
            get_docx_metadata parsed = Inr docx_meta \<and>
            (\<forall>k. meta (documents ! j) k =
               (case metadata k of
                  Some v \<Rightarrow> Some v
                | None \<Rightarrow> (case docx_meta k of
                             Some v \<Rightarrow> Some v
                           | None \<Rightarrow> ByteStream.meta bytestream k))) \<and>
            (\<forall>k v. docx_meta k = Some v \<longleftrightarrow>
               (\<exists>p\<in>set props. k = ''docx_'' @ p \<and> core_properties parsed p = Some (Inr v) \<and>
                               v \<noteq> PNone \<and> v \<noteq> PStr []))"
    if j: "j < length documents" and g: "?good ! j = (source, metadata)"
      and c: "converted C source = Some (bytestream, parsed)"
    for j source metadata bytestream parsed
  proof -
    have "?good ! j \<in> set ?good" using j len by (intro nth_mem) simp
    then have "(source, metadata) \<in> set ?zs" unfolding g by simp
    from ok[rule_format, OF this, of bytestream parsed] c
    obtain dm where dm: "get_docx_metadata parsed = Inr dm" by auto
    have "documents ! j = document_of C (source, metadata)"
      using j g len unfolding docs by simp
    then have mm: "\<forall>k. meta (documents ! j) k =
               (case metadata k of
                  Some v \<Rightarrow> Some v
                | None \<Rightarrow> (case dm k of
                             Some v \<Rightarrow> Some v
                           | None \<Rightarrow> ByteStream.meta bytestream k))"
      using c dm by (simp add: document_of_def map_add_def split: option.splits)
    have "\<forall>k v. dm k = Some v \<longleftrightarrow>
               (\<exists>p\<in>set props. k = ''docx_'' @ p \<and> core_properties parsed p = Some (Inr v) \<and>
                               v \<noteq> PNone \<and> v \<noteq> PStr [])"
      using get_docx_metadata_iff[OF dm] by simp
    with dm mm show ?thesis by (intro exI[of _ dm] conjI)
  qed
  show ?thesis
  proof (intro conjI allI impI)
    show "length documents = length ?good" by (rule len)
    show "length props = 15" by (rule length_props)
  next
    fix j source metadata bytestream parsed
    assume "j < length documents" "?good ! j = (source, metadata)"
      "converted C source = Some (bytestream, parsed)"
    then show "\<exists>docx_meta.
            get_docx_metadata parsed = Inr docx_meta \<and>
            (\<forall>k. meta (documents ! j) k =
               (case metadata k of
                  Some v \<Rightarrow> Some v
                | None \<Rightarrow> (case docx_meta k of
                             Some v \<Rightarrow> Some v
                           | None \<Rightarrow> ByteStream.meta bytestream k))) \<and>
            (\<forall>k v. docx_meta k = Some v \<longleftrightarrow>
               (\<exists>p\<in>set props. k = ''docx_'' @ p \<and> core_properties parsed p = Some (Inr v) \<and>
                               v \<noteq> PNone \<and> v \<noteq> PStr []))"
      by (rule one)
  qed
qed

theorem document_meta_merge_witness:
  "\<exists>documents warnings.
     docx_run sample_files [''missing.docx'', ''sample.docx'']
         (MetaDict [''docx_author'' \<mapsto> PStr ''test_author''])
       = (Inr [(''documents'', documents)], warnings) \<and>
     length documents = 1 \<and>
     meta (documents ! 0) ''docx_author'' = Some (PStr ''test_author'') \<and>
     meta (documents ! 0) ''docx_revision'' = Some (PInt 2) \<and>
     meta (documents ! 0) ''file_path'' = Some (PStr ''sample.docx'') \<and>
     meta (documents ! 0) ''docx_title'' = None"
proof -
  let ?md = "[''docx_author'' \<mapsto> PStr ''test_author'']"
  let ?bs = "\<lparr> data = ''sample.docx'',
                meta = [''file_path'' \<mapsto> PStr ''sample.docx'', ''docx_revision'' \<mapsto> PInt 0] \<rparr>"
  let ?docs = "[document_of sample_files (''sample.docx'', ?md)]"
  have n: "normalize_metadata (MetaDict ?md) (length [''missing.docx'', ''sample.docx''])
      = Inr [?md, ?md]"
    by (simp add: normalize_metadata_def)
  have g: "filter (\<lambda>z. converted sample_files (fst z) \<noteq> None)
      (zip [''missing.docx'', ''sample.docx''] [?md, ?md]) = [(''sample.docx'', ?md)]"
    by (simp add: converted_sample)
  note r = docx_run_sample[of ?md]
  note t = document_meta_merge[OF n r, unfolded g]
  note k = t[THEN conjunct2, THEN conjunct1, rule_format, of 0 "''sample.docx''" ?md ?bs sample_docx]
  have p1: "0 < length ?docs" by simp
  have p2: "[(''sample.docx'', ?md)] ! 0 = (''sample.docx'', ?md)" by simp
  from k[OF p1 p2 converted_sample(1)] obtain docx_meta where
    dm: "get_docx_metadata sample_docx = Inr docx_meta"
    and m: "\<And>k. meta (?docs ! 0) k =
               (case ?md k of
                  Some v \<Rightarrow> Some v
                | None \<Rightarrow> (case docx_meta k of
                             Some v \<Rightarrow> Some v
                           | None \<Rightarrow> ByteStream.meta ?bs k))"
    by blast
  from dm have dm': "docx_meta = [''docx_author'' \<mapsto> PStr ''Microsoft Office User'',
                                   ''docx_revision'' \<mapsto> PInt 2]"
    unfolding sample_docx_metadata by simp
  have a: "meta (?docs ! 0) ''docx_author'' = Some (PStr ''test_author'')"
    unfolding m by simp
  have b: "meta (?docs ! 0) ''docx_revision'' = Some (PInt 2)"
    unfolding m dm' by simp
  have c: "meta (?docs ! 0) ''file_path'' = Some (PStr ''sample.docx'')"
    unfolding m dm' by simp
  have d: "meta (?docs ! 0) ''docx_title'' = None"
    unfolding m dm' by simp
  have l: "length ?docs = 1" by simp
  show ?thesis
    by (rule exI[of _ ?docs], rule exI[of _ "[CouldNotRead ''missing.docx'' (Raised ''No such file'')]"])
       (intro conjI r l a b c d)
qed

end
